theory Spec2Isabelle
  imports Complex_Main "HOL-Library.Multiset"
begin

section \<open>Privacy tier classifier (src/services/privacy.ts)\<close>

text \<open>
  Amounts and thresholds are JavaScript numbers; they are modelled as real numbers.
  NaN, the infinities and rounding are outside the model. On finite numbers the sign of
  \<open>b.threshold - a.threshold\<close> is the sign of the exact difference, so the comparator
  below orders tiers as the source does.
\<close>

record PrivacyTier =
  name :: string
  threshold :: real

record TierAssignment =
  tier :: string
  amount :: real
  originalAmount :: real

text \<open>The comparator handed to \<open>Array.prototype.sort\<close>: \<open>(a, b) => b.threshold - a.threshold\<close>.\<close>

definition tier_cmp :: "PrivacyTier \<Rightarrow> PrivacyTier \<Rightarrow> real" where
  "tier_cmp a b = threshold b - threshold a"

text \<open>
  \<open>Array.prototype.sort\<close> is a stable sort (ECMAScript 2019): elements that the
  comparator does not separate keep their input order. It is modelled as a stable
  insertion sort: an element is placed in front of the first element of the already
  sorted rest that it need not follow.
\<close>

fun insert_sorted :: "('a \<Rightarrow> 'a \<Rightarrow> real) \<Rightarrow> 'a \<Rightarrow> 'a list \<Rightarrow> 'a list" where
  "insert_sorted cmp x [] = [x]"
| "insert_sorted cmp x (y # ys) =
     (if cmp x y \<le> 0 then x # y # ys else y # insert_sorted cmp x ys)"

definition js_sort :: "('a \<Rightarrow> 'a \<Rightarrow> real) \<Rightarrow> 'a list \<Rightarrow> 'a list" where
  "js_sort cmp xs = foldr (insert_sorted cmp) xs []"

text \<open>The \<open>for (const tier of sortedTiers)\<close> loop with its early return, and the sentinel after it.\<close>

fun first_match :: "real \<Rightarrow> PrivacyTier list \<Rightarrow> TierAssignment" where
  "first_match amt [] = \<lparr>tier = ''No Tier'', amount = 0, originalAmount = amt\<rparr>"
| "first_match amt (t # ts) =
     (if amt \<ge> threshold t
      then \<lparr>tier = name t, amount = threshold t, originalAmount = amt\<rparr>
      else first_match amt ts)"

definition getPrivacyTier :: "real \<Rightarrow> PrivacyTier list \<Rightarrow> TierAssignment" where
  "getPrivacyTier amt tiers = first_match amt (js_sort tier_cmp tiers)"

definition anonymizeAmount :: "real \<Rightarrow> PrivacyTier list \<Rightarrow> real" where
  "anonymizeAmount amt tiers = amount (getPrivacyTier amt tiers)"

text \<open>The tier table of the repository's tests (privacy.test.ts).\<close>

definition test_tiers :: "PrivacyTier list" where
  "test_tiers =
     [\<lparr>name = ''Tier A'', threshold = 100\<rparr>,
      \<lparr>name = ''Tier B'', threshold = 10\<rparr>,
      \<lparr>name = ''Tier C'', threshold = 1\<rparr>]"

section \<open>Deposit verifier (src/services/verifier.ts)\<close>

text \<open>
  The \<open>Deposit\<close> row of src/db/schema.ts. The fields \<open>id\<close> and \<open>amount\<close> are written
  \<open>dep_id\<close> and \<open>dep_amount\<close> (\<open>id\<close> is a constant of HOL, \<open>amount\<close> is a field of
  \<open>TierAssignment\<close>). Timestamps are milliseconds since the epoch, as \<open>Date.now()\<close>
  returns them. Strings are lists of characters, and \<open>length\<close> counts them as
  \<open>String.length\<close> counts UTF-16 code units.
\<close>

record Deposit =
  dep_id :: string
  txid :: string
  wallet :: string
  dep_amount :: real
  token :: string
  timestamp :: int
  processed :: bool
  created_at :: string

record VerificationResult =
  valid :: bool
  reason :: "string option"

definition RATE_LIMIT_WINDOW_MS :: int where
  "RATE_LIMIT_WINDOW_MS = 60000"

definition MAX_EVENTS_PER_WINDOW :: nat where
  "MAX_EVENTS_PER_WINDOW = 10"

record RateLimitEntry =
  entry_wallet :: string
  timestamps :: "int list"

text \<open>The module-level \<open>rateLimitMap\<close>: a map from wallet to its entry.\<close>

type_synonym RateLimitMap = "string \<rightharpoonup> RateLimitEntry"

text \<open>
  \<open>cleanupOldEntries\<close>: every entry keeps the timestamps \<open>ts\<close> with
  \<open>now - ts < RATE_LIMIT_WINDOW_MS\<close>; an entry left without timestamps is deleted.
  \<open>now\<close> is the reading of \<open>Date.now()\<close> at its first line.
\<close>

definition cleanupOldEntries :: "int \<Rightarrow> RateLimitMap \<Rightarrow> RateLimitMap" where
  "cleanupOldEntries now m =
     (\<lambda>w. case m w of
        None \<Rightarrow> None
      | Some entry \<Rightarrow>
          (let ts' = filter (\<lambda>ts. now - ts < RATE_LIMIT_WINDOW_MS) (timestamps entry)
           in if length ts' = 0 then None else Some (entry\<lparr>timestamps := ts'\<rparr>)))"

text \<open>
  One call of \<open>verifyDeposit\<close> reads \<open>Date.now()\<close> up to four times: for the age check,
  for the future check, inside \<open>cleanupOldEntries\<close> and for the timestamp it records.
  Each reading is an input of the model.
\<close>

record Clock =
  now_age :: int
  now_future :: int
  now_cleanup :: int
  now_push :: int

definition rejected :: "string \<Rightarrow> VerificationResult" where
  "rejected why = \<lparr>valid = False, reason = Some why\<rparr>"

definition accepted :: VerificationResult where
  "accepted = \<lparr>valid = True, reason = None\<rparr>"

definition verifyDeposit ::
  "Clock \<Rightarrow> RateLimitMap \<Rightarrow> Deposit \<Rightarrow> VerificationResult \<times> RateLimitMap" where
  "verifyDeposit clk m deposit =
     (if dep_amount deposit \<le> 0 then (rejected ''Amount must be greater than 0'', m)
      else let twentyFourHoursAgo = now_age clk - (24 * 60 * 60 * 1000) in
      if timestamp deposit < twentyFourHoursAgo then (rejected ''Deposit timestamp too old'', m)
      else if timestamp deposit > now_future clk + 60000
        then (rejected ''Deposit timestamp in future'', m)
      else if wallet deposit = [] \<or> length (wallet deposit) < 20
        then (rejected ''Invalid wallet address'', m)
      else
        let m1 = cleanupOldEntries (now_cleanup clk) m;
            entry = (case m1 (wallet deposit) of
                       Some e \<Rightarrow> e
                     | None \<Rightarrow> \<lparr>entry_wallet = wallet deposit, timestamps = []\<rparr>)
        in if length (timestamps entry) \<ge> MAX_EVENTS_PER_WINDOW
           then (rejected ''Rate limit exceeded'', m1)
           else (accepted,
                 m1(wallet deposit \<mapsto> entry\<lparr>timestamps := timestamps entry @ [now_push clk]\<rparr>)))"

definition checkDuplicate :: "Deposit \<Rightarrow> Deposit list \<Rightarrow> bool" where
  "checkDuplicate deposit existingDeposits =
     list_ex (\<lambda>d. txid d = txid deposit \<or> dep_id d = dep_id deposit) existingDeposits"

text \<open>
  Auxiliary notions for stating properties of the verifier: the four structural checks
  (amount, age, future, wallet) all pass; the timestamps the ledger holds for a wallet;
  successive calls, each with its own clock readings.
\<close>

definition structurally_valid :: "Clock \<Rightarrow> Deposit \<Rightarrow> bool" where
  "structurally_valid clk deposit =
     (0 < dep_amount deposit
      \<and> now_age clk - 86400000 \<le> timestamp deposit
      \<and> timestamp deposit \<le> now_future clk + 60000
      \<and> 20 \<le> length (wallet deposit))"

definition ledger_of :: "RateLimitMap \<Rightarrow> string \<Rightarrow> int list" where
  "ledger_of m w = (case m w of None \<Rightarrow> [] | Some e \<Rightarrow> timestamps e)"

fun verify_all ::
  "(Clock \<times> Deposit) list \<Rightarrow> RateLimitMap \<Rightarrow> VerificationResult list \<times> RateLimitMap" where
  "verify_all [] m = ([], m)"
| "verify_all ((clk, d) # calls) m =
     (let (r, m1) = verifyDeposit clk m d;
          (rs, m2) = verify_all calls m1
      in (r # rs, m2))"

section \<open>Persistence (src/db/schema.ts)\<close>

text \<open>
  A thrown value: an \<open>Error\<close> object with its message, or any other value. The
  \<open>catch\<close> blocks of the repository tell the two apart with \<open>instanceof Error\<close>.
\<close>

datatype thrown = ErrorObj string | NonError

text \<open>
  The \<open>metadata\<close> column holds \<open>JSON.stringify\<close> of an object with these four fields;
  the model keeps the object and leaves the serialisation out.
\<close>

record Metadata =
  meta_depositId :: string
  meta_tier :: string
  meta_timestamp :: int
  meta_metadataUri :: "string option"

text \<open>The \<open>Attestation\<close> row; \<open>id\<close>, \<open>wallet\<close> and \<open>tier\<close> carry the prefix \<open>att_\<close>.\<close>

record Attestation =
  att_id :: string
  deposit_id :: string
  att_wallet :: string
  att_tier :: string
  token_id :: "string option"
  minted_at :: string
  metadata :: Metadata

text \<open>
  The two tables, in insertion order. \<open>foreign_keys\<close> says whether the connection
  enforces the \<open>FOREIGN KEY (deposit_id) REFERENCES deposits(id)\<close> clause; that is a
  setting of the SQLite connection, not of the schema. Failures of the storage other than
  the schema's constraints (I/O errors) are outside the model.
\<close>

record Database =
  deposits :: "Deposit list"
  attestations :: "Attestation list"
  foreign_keys :: bool

text \<open>
  \<open>INSERT INTO deposits (id, txid, wallet, amount, token, timestamp, processed)\<close>:
  \<open>id\<close> is the primary key; \<open>created_at\<close> is not among the columns written and takes
  the default \<open>CURRENT_TIMESTAMP\<close>, here the argument \<open>current\<close>.
\<close>

definition insert_deposit :: "string \<Rightarrow> Deposit \<Rightarrow> Database \<Rightarrow> thrown + Database" where
  "insert_deposit current d dbase =
     (if list_ex (\<lambda>r. dep_id r = dep_id d) (deposits dbase)
      then Inl (ErrorObj ''UNIQUE constraint failed: deposits.id'')
      else Inr (dbase\<lparr>deposits := deposits dbase @ [d\<lparr>created_at := current\<rparr>]\<rparr>))"

text \<open>\<open>SELECT * FROM deposits WHERE txid = ?\<close>\<close>

definition select_deposits_by_txid :: "string \<Rightarrow> Database \<Rightarrow> Deposit list" where
  "select_deposits_by_txid t dbase = filter (\<lambda>r. txid r = t) (deposits dbase)"

text \<open>\<open>INSERT INTO attestations (id, deposit_id, wallet, tier, token_id, metadata)\<close>\<close>

definition insert_attestation :: "Attestation \<Rightarrow> Database \<Rightarrow> thrown + Database" where
  "insert_attestation a dbase =
     (if list_ex (\<lambda>r. att_id r = att_id a) (attestations dbase)
      then Inl (ErrorObj ''UNIQUE constraint failed: attestations.id'')
      else if foreign_keys dbase \<and> \<not> list_ex (\<lambda>r. dep_id r = deposit_id a) (deposits dbase)
      then Inl (ErrorObj ''FOREIGN KEY constraint failed'')
      else Inr (dbase\<lparr>attestations := attestations dbase @ [a]\<rparr>))"

text \<open>\<open>UPDATE deposits SET processed = 1 WHERE id = ?\<close>\<close>

definition mark_processed :: "string \<Rightarrow> Database \<Rightarrow> Database" where
  "mark_processed i dbase =
     dbase\<lparr>deposits := map (\<lambda>r. if dep_id r = i then r\<lparr>processed := True\<rparr> else r) (deposits dbase)\<rparr>"

section \<open>Attestation minter (src/services/minter.ts)\<close>

record MintResult =
  success :: bool
  attestationId :: "string option"
  tokenId :: "string option"
  error :: "string option"

record Config =
  mode :: string
  privacy_tiers :: "PrivacyTier list"

text \<open>
  What the service sees of a confirmed transaction: the topics of each log, and the
  transaction hash. The contract stands for the three awaited calls of
  \<open>mintOnEthereum\<close> (gas estimate, transaction, confirmation): given the recipient and
  the URI, they throw or yield a receipt.
\<close>

record Log =
  topics :: "string list"

record Receipt =
  logs :: "Log list"
  hash :: string

type_synonym EthContract = "string \<Rightarrow> string \<Rightarrow> thrown + Receipt"

record MinterService =
  config :: Config
  ethereumContract :: "EthContract option"

text \<open>
  The inputs one call of \<open>mintAttestation\<close> takes from its environment: the result of
  \<open>uuidv4()\<close>, the readings of \<open>Date.now()\<close> in the minting function and in the
  metadata, and the database's \<open>CURRENT_TIMESTAMP\<close> for \<open>minted_at\<close>.
\<close>

record MintEnv =
  uuid :: string
  now_token :: int
  now_metadata :: int
  current_timestamp :: string

text \<open>A record of each call of a minting function, kept to state which calls were made.\<close>

datatype MintCall =
    MintOnEthereum string string "string option"
  | MintOnSolana string string
  | MintMock string string

text \<open>What the \<open>io.emit\<close> calls of the server broadcast.\<close>

record DepositEvent =
  ev_id :: string
  ev_txid :: string
  ev_wallet :: string
  ev_amount :: real
  ev_token :: string
  ev_timestamp :: int

datatype Emitted =
    DepositNew DepositEvent
  | DepositVerified string bool "string option"
  | AttestationMinted string string string "string option"

text \<open>The state of the server: database, rate-limit ledger, minting calls made, broadcasts made.\<close>

record App =
  db :: Database
  rateLimitMap :: RateLimitMap
  mint_calls :: "MintCall list"
  emitted :: "Emitted list"

text \<open>Decimal digits of a number, for \<open>Date.now().toString()\<close> and the template strings.\<close>

fun nat_toString :: "nat \<Rightarrow> string" where
  "nat_toString n =
     (if n < 10 then [''0123456789'' ! n]
      else nat_toString (n div 10) @ [''0123456789'' ! (n mod 10)])"

declare nat_toString.simps [simp del]

definition Number_toString :: "int \<Rightarrow> string" where
  "Number_toString i = (if i < 0 then ''-'' @ nat_toString (nat (- i)) else nat_toString (nat i))"

definition mintOnEthereum ::
  "MinterService \<Rightarrow> MintEnv \<Rightarrow> string \<Rightarrow> string \<Rightarrow> string option \<Rightarrow> thrown + (string \<times> string)" where
  "mintOnEthereum svc env w tierName metadataUri =
     (case ethereumContract svc of
        None \<Rightarrow> Inl (ErrorObj ''Ethereum contract not initialized'')
      | Some contract \<Rightarrow>
          (let fallback = ''https://scotopia.io/attestations/'' @ w @ ''/'' @ tierName;
               uri = (case metadataUri of
                        None \<Rightarrow> fallback
                      | Some u \<Rightarrow> if u = [] then fallback else u)
           in case contract w uri of
                Inl e \<Rightarrow> Inl e
              | Inr receipt \<Rightarrow>
                  (case logs receipt of
                     [] \<Rightarrow> Inr (Number_toString (now_token env), hash receipt)
                   | l # _ \<Rightarrow>
                       if 3 < length (topics l) then Inr (topics l ! 3, hash receipt)
                       else Inl (ErrorObj ''Cannot read properties of undefined (reading 'toString')''))))"

definition mintOnSolana :: "MintEnv \<Rightarrow> string \<Rightarrow> string \<Rightarrow> string" where
  "mintOnSolana env w tierName = ''sol-mock-'' @ Number_toString (now_token env)"

definition mintMock :: "MintEnv \<Rightarrow> string \<Rightarrow> string \<Rightarrow> string" where
  "mintMock env w tierName = ''mock-'' @ Number_toString (now_token env)"

text \<open>The \<open>catch\<close> block of \<open>mintAttestation\<close>.\<close>

definition caught :: "thrown \<Rightarrow> MintResult" where
  "caught e =
     \<lparr>success = False, attestationId = None, tokenId = None,
      error = Some (case e of ErrorObj msg \<Rightarrow> msg | NonError \<Rightarrow> ''Unknown error'')\<rparr>"

definition mintAttestation ::
  "MinterService \<Rightarrow> MintEnv \<Rightarrow> App \<Rightarrow> Deposit \<Rightarrow> string \<Rightarrow> string option \<Rightarrow> MintResult \<times> App" where
  "mintAttestation svc env app deposit tierName metadataUri =
     (if processed deposit
      then (\<lparr>success = False, attestationId = None, tokenId = None,
             error = Some ''Deposit already processed''\<rparr>, app)
      else
        let (minted, call) =
              (if mode (config svc) = ''ethereum''
               then (map_sum (\<lambda>e. e) fst (mintOnEthereum svc env (wallet deposit) tierName metadataUri),
                     MintOnEthereum (wallet deposit) tierName metadataUri)
               else if mode (config svc) = ''solana''
               then (Inr (mintOnSolana env (wallet deposit) tierName),
                     MintOnSolana (wallet deposit) tierName)
               else (Inr (mintMock env (wallet deposit) tierName),
                     MintMock (wallet deposit) tierName));
            app1 = app\<lparr>mint_calls := mint_calls app @ [call]\<rparr>
        in case minted of
             Inl e \<Rightarrow> (caught e, app1)
           | Inr tokenIdent \<Rightarrow>
               (let attestationIdent = uuid env;
                    row = \<lparr>att_id = attestationIdent, deposit_id = dep_id deposit,
                           att_wallet = wallet deposit, att_tier = tierName,
                           token_id = Some tokenIdent, minted_at = current_timestamp env,
                           metadata = \<lparr>meta_depositId = dep_id deposit, meta_tier = tierName,
                                        meta_timestamp = now_metadata env,
                                        meta_metadataUri = metadataUri\<rparr>\<rparr>
                in case insert_attestation row (db app1) of
                     Inl e \<Rightarrow> (caught e, app1)
                   | Inr db1 \<Rightarrow>
                       (\<lparr>success = True, attestationId = Some attestationIdent,
                         tokenId = Some tokenIdent, error = None\<rparr>,
                        app1\<lparr>db := mark_processed (dep_id deposit) db1\<rparr>)))"

section \<open>Event pipeline (the deposit handler of src/index.ts)\<close>

text \<open>
  The inputs one run of the handler takes from its environment: \<open>new Date().toISOString()\<close>,
  the database's \<open>CURRENT_TIMESTAMP\<close> at the insertion of the deposit, the clock readings of
  the verifier, and the inputs of the minter.
\<close>

record HandlerEnv =
  iso_now :: string
  db_now :: string
  clock :: Clock
  mint_env :: MintEnv

definition onDeposit :: "MinterService \<Rightarrow> HandlerEnv \<Rightarrow> App \<Rightarrow> DepositEvent \<Rightarrow> App" where
  "onDeposit minter env app deposit =
     (let dbDeposit = \<lparr>dep_id = ev_id deposit, txid = ev_txid deposit, wallet = ev_wallet deposit,
                       dep_amount = ev_amount deposit, token = ev_token deposit,
                       timestamp = ev_timestamp deposit, processed = False,
                       created_at = iso_now env\<rparr>
      in case insert_deposit (db_now env) dbDeposit (db app) of
           Inl e \<Rightarrow> app
         | Inr db1 \<Rightarrow>
             (let app1 = app\<lparr>db := db1, emitted := emitted app @ [DepositNew deposit]\<rparr>;
                  (verification, ledger1) = verifyDeposit (clock env) (rateLimitMap app1) dbDeposit;
                  app2 = app1\<lparr>rateLimitMap := ledger1\<rparr>
              in if \<not> valid verification
                 then app2\<lparr>emitted := emitted app2 @
                        [DepositVerified (ev_id deposit) False (reason verification)]\<rparr>
                 else
                   let existingDeposits = select_deposits_by_txid (ev_txid deposit) (db app2)
                   in if checkDuplicate dbDeposit existingDeposits
                      then app2\<lparr>emitted := emitted app2 @
                             [DepositVerified (ev_id deposit) False (Some ''Duplicate deposit'')]\<rparr>
                      else
                        let app3 = app2\<lparr>emitted := emitted app2 @
                                     [DepositVerified (ev_id deposit) True None]\<rparr>
                        in if mode (config minter) = ''mock''
                           then
                             let assignment = getPrivacyTier (ev_amount deposit)
                                                (privacy_tiers (config minter));
                                 (result, app4) = mintAttestation minter (mint_env env) app3 dbDeposit
                                                    (tier assignment) None
                             in if success result
                                then app4\<lparr>emitted := emitted app4 @
                                       [AttestationMinted (ev_id deposit) (ev_wallet deposit)
                                          (tier assignment) (tokenId result)]\<rparr>
                                else app4
                           else app3))"

text \<open>
  Test data: the valid deposit of verifier.test.ts with its observed-at time as a
  parameter, and a clock whose four readings are equal.
\<close>

definition test_wallet :: string where
  "test_wallet = ''0x742d35Cc6634C0532925a3b844Bc9e7595f0bEb''"

definition test_deposit :: "int \<Rightarrow> Deposit" where
  "test_deposit t =
     \<lparr>dep_id = ''test-1'', txid = ''0x123'', wallet = test_wallet, dep_amount = 21/2,
      token = ''USDC'', timestamp = t, processed = False, created_at = ''2024-01-01T00:00:00.000Z''\<rparr>"

definition clock_at :: "int \<Rightarrow> Clock" where
  "clock_at t = \<lparr>now_age = t, now_future = t, now_cleanup = t, now_push = t\<rparr>"

definition full_ledger :: "int \<Rightarrow> RateLimitMap" where
  "full_ledger t =
     [test_wallet \<mapsto> \<lparr>entry_wallet = test_wallet, timestamps = [t, t, t, t, t, t, t, t, t, t]\<rparr>]"


text \<open>
  More test data: a service in mock mode, one in ethereum mode whose contract throws,
  environment inputs, a database that holds the test deposit, and the event that
  carries it.
\<close>

definition mock_service :: MinterService where
  "mock_service = \<lparr>config = \<lparr>mode = ''mock'', privacy_tiers = test_tiers\<rparr>, ethereumContract = None\<rparr>"

definition failing_service :: MinterService where
  "failing_service =
     \<lparr>config = \<lparr>mode = ''ethereum'', privacy_tiers = test_tiers\<rparr>,
      ethereumContract = Some (\<lambda>w uri. Inl (ErrorObj ''network error''))\<rparr>"

definition test_mint_env :: MintEnv where
  "test_mint_env =
     \<lparr>uuid = ''uuid-1'', now_token = 5, now_metadata = 5, current_timestamp = ''2024-01-01 00:00:00''\<rparr>"

definition empty_app :: App where
  "empty_app =
     \<lparr>db = \<lparr>deposits = [], attestations = [], foreign_keys = True\<rparr>,
      rateLimitMap = Map.empty, mint_calls = [], emitted = []\<rparr>"

definition stored_app :: App where
  "stored_app = empty_app\<lparr>db := \<lparr>deposits = [test_deposit 0], attestations = [], foreign_keys = True\<rparr>\<rparr>"

definition test_event :: DepositEvent where
  "test_event =
     \<lparr>ev_id = ''test-1'', ev_txid = ''0x123'', ev_wallet = test_wallet, ev_amount = 21/2,
      ev_token = ''USDC'', ev_timestamp = 1000\<rparr>"

definition test_handler_env :: HandlerEnv where
  "test_handler_env =
     \<lparr>iso_now = ''2024-01-01T00:00:00.000Z'', db_now = ''2024-01-01 00:00:00'',
      clock = clock_at 1000, mint_env = test_mint_env\<rparr>"

section \<open>Lemmas about the classifier\<close>

subsection \<open>The sort, as a sort by key\<close>

lemma insert_sorted_tier_cmp:
  "insert_sorted tier_cmp x ys = insort_key (\<lambda>t. - threshold t) x ys"
  by (induction ys) (auto simp: tier_cmp_def)

lemma js_sort_tier_cmp: "js_sort tier_cmp xs = sort_key (\<lambda>t. - threshold t) xs"
proof -
  have "insert_sorted tier_cmp = insort_key (\<lambda>t. - threshold t)"
    by (intro ext) (rule insert_sorted_tier_cmp)
  then show ?thesis by (simp add: js_sort_def sort_key_def)
qed

lemma set_js_sort: "set (js_sort tier_cmp xs) = set xs"
  by (simp add: js_sort_tier_cmp)

lemma sorted_js_sort: "sorted (map (\<lambda>t. - threshold t) (js_sort tier_cmp xs))"
  by (simp add: js_sort_tier_cmp)

subsection \<open>What the loop returns on a table sorted by descending threshold\<close>

lemma first_match_none:
  "\<forall>t \<in> set ts. \<not> threshold t \<le> amt \<Longrightarrow>
   first_match amt ts = \<lparr>tier = ''No Tier'', amount = 0, originalAmount = amt\<rparr>"
  by (induction ts) auto

lemma first_match_some:
  "sorted (map (\<lambda>t. - threshold t) ts) \<Longrightarrow> \<exists>t \<in> set ts. threshold t \<le> amt \<Longrightarrow>
   \<exists>t \<in> set ts. first_match amt ts = \<lparr>tier = name t, amount = threshold t, originalAmount = amt\<rparr>
      \<and> threshold t \<le> amt \<and> (\<forall>u \<in> set ts. threshold u \<le> amt \<longrightarrow> threshold u \<le> threshold t)"
proof (induction ts)
  case Nil
  then show ?case by simp
next
  case (Cons a ts)
  show ?case
  proof (cases "threshold a \<le> amt")
    case True
    have "\<forall>u \<in> set (a # ts). threshold u \<le> threshold a"
      using Cons.prems(1) by auto
    with True show ?thesis by auto
  next
    case False
    with Cons.prems have "sorted (map (\<lambda>t. - threshold t) ts)" "\<exists>t \<in> set ts. threshold t \<le> amt"
      by auto
    from Cons.IH[OF this] obtain t where t: "t \<in> set ts"
      "first_match amt ts = \<lparr>tier = name t, amount = threshold t, originalAmount = amt\<rparr>"
      "threshold t \<le> amt" "\<forall>u \<in> set ts. threshold u \<le> amt \<longrightarrow> threshold u \<le> threshold t"
      by blast
    with False show ?thesis by auto
  qed
qed

lemma getPrivacyTier_none:
  "\<forall>t \<in> set tiers. \<not> threshold t \<le> amt \<Longrightarrow>
   getPrivacyTier amt tiers = \<lparr>tier = ''No Tier'', amount = 0, originalAmount = amt\<rparr>"
  unfolding getPrivacyTier_def by (rule first_match_none) (simp add: set_js_sort)

lemma getPrivacyTier_some:
  assumes "\<exists>t \<in> set tiers. threshold t \<le> amt"
  shows "\<exists>t \<in> set tiers.
      getPrivacyTier amt tiers = \<lparr>tier = name t, amount = threshold t, originalAmount = amt\<rparr>
      \<and> threshold t \<le> amt \<and> (\<forall>u \<in> set tiers. threshold u \<le> amt \<longrightarrow> threshold u \<le> threshold t)"
proof -
  have "\<exists>t \<in> set (js_sort tier_cmp tiers). threshold t \<le> amt"
    using assms by (simp add: set_js_sort)
  from first_match_some[OF sorted_js_sort this] show ?thesis
    by (simp add: getPrivacyTier_def set_js_sort)
qed

lemma originalAmount_getPrivacyTier: "originalAmount (getPrivacyTier amt tiers) = amt"
proof (cases "\<exists>t \<in> set tiers. threshold t \<le> amt")
  case True
  from getPrivacyTier_some[OF this] show ?thesis by auto
next
  case False
  then show ?thesis by (simp add: getPrivacyTier_none)
qed

text \<open>The result depends on the set of tiers only, as far as the amounts go; the name too
  when tiers on one threshold agree on it.\<close>

lemma getPrivacyTier_set_amount:
  assumes "set tiers1 = set tiers2"
  shows "amount (getPrivacyTier amt tiers1) = amount (getPrivacyTier amt tiers2)"
proof (cases "\<exists>t \<in> set tiers1. threshold t \<le> amt")
  case True
  then have T2: "\<exists>t \<in> set tiers2. threshold t \<le> amt" using assms by simp
  from getPrivacyTier_some[OF True] obtain t where t: "t \<in> set tiers1"
    "getPrivacyTier amt tiers1 = \<lparr>tier = name t, amount = threshold t, originalAmount = amt\<rparr>"
    "threshold t \<le> amt" "\<forall>u \<in> set tiers1. threshold u \<le> amt \<longrightarrow> threshold u \<le> threshold t"
    by blast
  from getPrivacyTier_some[OF T2] obtain t' where t': "t' \<in> set tiers2"
    "getPrivacyTier amt tiers2 = \<lparr>tier = name t', amount = threshold t', originalAmount = amt\<rparr>"
    "threshold t' \<le> amt" "\<forall>u \<in> set tiers2. threshold u \<le> amt \<longrightarrow> threshold u \<le> threshold t'"
    by blast
  have "t \<in> set tiers2" "t' \<in> set tiers1"
    using t(1) t'(1) assms by simp_all
  then have "threshold t \<le> threshold t'" "threshold t' \<le> threshold t"
    using t(3,4) t'(3,4) by blast+
  then show ?thesis using t(2) t'(2) by simp
next
  case False
  then have "\<forall>t \<in> set tiers1. \<not> threshold t \<le> amt" "\<forall>t \<in> set tiers2. \<not> threshold t \<le> amt"
    using assms(1) by simp_all
  then show ?thesis by (simp add: getPrivacyTier_none)
qed

lemma getPrivacyTier_set_name:
  assumes "set tiers1 = set tiers2"
    and "\<forall>x \<in> set tiers1. \<forall>y \<in> set tiers1. threshold x = threshold y \<longrightarrow> name x = name y"
  shows "tier (getPrivacyTier amt tiers1) = tier (getPrivacyTier amt tiers2)"
proof (cases "\<exists>t \<in> set tiers1. threshold t \<le> amt")
  case True
  then have T2: "\<exists>t \<in> set tiers2. threshold t \<le> amt" using assms by simp
  from getPrivacyTier_some[OF True] obtain t where t: "t \<in> set tiers1"
    "getPrivacyTier amt tiers1 = \<lparr>tier = name t, amount = threshold t, originalAmount = amt\<rparr>"
    "threshold t \<le> amt" "\<forall>u \<in> set tiers1. threshold u \<le> amt \<longrightarrow> threshold u \<le> threshold t"
    by blast
  from getPrivacyTier_some[OF T2] obtain t' where t': "t' \<in> set tiers2"
    "getPrivacyTier amt tiers2 = \<lparr>tier = name t', amount = threshold t', originalAmount = amt\<rparr>"
    "threshold t' \<le> amt" "\<forall>u \<in> set tiers2. threshold u \<le> amt \<longrightarrow> threshold u \<le> threshold t'"
    by blast
  have "t \<in> set tiers2" "t' \<in> set tiers1"
    using t(1) t'(1) assms by simp_all
  then have "threshold t \<le> threshold t'" "threshold t' \<le> threshold t"
    using t(3,4) t'(3,4) by blast+
  then have "threshold t = threshold t'" by simp
  moreover have "t' \<in> set tiers1" using t'(1) assms(1) by simp
  ultimately have "name t = name t'" using assms(2) t(1) by blast
  then show ?thesis using t(2) t'(2) by simp
next
  case False
  then have "\<forall>t \<in> set tiers1. \<not> threshold t \<le> amt" "\<forall>t \<in> set tiers2. \<not> threshold t \<le> amt"
    using assms(1) by simp_all
  then show ?thesis by (simp add: getPrivacyTier_none)
qed

section \<open>Properties of the classifier\<close>

text \<open>
  C9. For every amount and tier table, if no tier's threshold is at most the amount,
  \<open>getPrivacyTier\<close> returns the sentinel tier name "No Tier" with bucketed amount 0 and
  original amount equal to the input amount.
\<close>

theorem C9_no_tier_sentinel:
  assumes "\<forall>t \<in> set tiers. \<not> threshold t \<le> amt"
  shows "getPrivacyTier amt tiers = \<lparr>tier = ''No Tier'', amount = 0, originalAmount = amt\<rparr>"
  using assms by (rule getPrivacyTier_none)

theorem C9_no_tier_sentinel_witness:
  "list_all (\<lambda>t. \<not> threshold t \<le> 1/2) test_tiers \<and>
   getPrivacyTier (1/2) test_tiers = \<lparr>tier = ''No Tier'', amount = 0, originalAmount = 1/2\<rparr>"
proof -
  have h: "\<forall>t \<in> set test_tiers. \<not> threshold t \<le> 1/2"
    by (simp add: test_tiers_def)
  have "list_all (\<lambda>t. \<not> threshold t \<le> 1/2) test_tiers"
    by (simp add: test_tiers_def)
  with C9_no_tier_sentinel[OF h] show ?thesis by simp
qed

text \<open>
  C2 (as the code has it). For every amount and every two tier tables that are
  permutations of each other, \<open>getPrivacyTier\<close> returns the same bucketed amount and the
  same original amount; it returns the same tier name too, hence the same result, whenever
  tiers that share a threshold also share their name (in particular whenever the
  thresholds are pairwise distinct).
\<close>

theorem C2_permutation_independent:
  assumes "mset tiers1 = mset tiers2"
  shows "amount (getPrivacyTier amt tiers1) = amount (getPrivacyTier amt tiers2)
    \<and> originalAmount (getPrivacyTier amt tiers1) = originalAmount (getPrivacyTier amt tiers2)
    \<and> ((\<forall>x \<in> set tiers1. \<forall>y \<in> set tiers1. threshold x = threshold y \<longrightarrow> name x = name y)
         \<longrightarrow> getPrivacyTier amt tiers1 = getPrivacyTier amt tiers2)"
proof -
  from assms have S: "set tiers1 = set tiers2" by (rule mset_eq_setD)
  have A: "amount (getPrivacyTier amt tiers1) = amount (getPrivacyTier amt tiers2)"
    using S by (rule getPrivacyTier_set_amount)
  have B: "originalAmount (getPrivacyTier amt tiers1) = originalAmount (getPrivacyTier amt tiers2)"
    by (simp only: originalAmount_getPrivacyTier)
  have C: "getPrivacyTier amt tiers1 = getPrivacyTier amt tiers2"
    if "\<forall>x \<in> set tiers1. \<forall>y \<in> set tiers1. threshold x = threshold y \<longrightarrow> name x = name y"
  proof (rule TierAssignment.equality)
    show "tier (getPrivacyTier amt tiers1) = tier (getPrivacyTier amt tiers2)"
      using S that by (rule getPrivacyTier_set_name)
  qed (simp_all add: A B)
  from A B C show ?thesis by blast
qed

theorem C2_permutation_independent_witness:
  "mset test_tiers =
     mset [\<lparr>name = ''Tier C'', threshold = 1\<rparr>, \<lparr>name = ''Tier B'', threshold = 10\<rparr>,
           \<lparr>name = ''Tier A'', threshold = 100\<rparr>]
   \<and> distinct (map threshold test_tiers)
   \<and> getPrivacyTier 25 test_tiers =
       getPrivacyTier 25 [\<lparr>name = ''Tier C'', threshold = 1\<rparr>, \<lparr>name = ''Tier B'', threshold = 10\<rparr>,
           \<lparr>name = ''Tier A'', threshold = 100\<rparr>]
   \<and> getPrivacyTier 25 test_tiers = \<lparr>tier = ''Tier B'', amount = 10, originalAmount = 25\<rparr>"
proof -
  let ?rev = "[\<lparr>name = ''Tier C'', threshold = 1\<rparr>, \<lparr>name = ''Tier B'', threshold = 10\<rparr>,
           \<lparr>name = ''Tier A'', threshold = 100\<rparr>]"
  have h1: "mset test_tiers = mset ?rev"
    by (simp add: test_tiers_def)
  have d: "distinct (map threshold test_tiers)"
    by (simp add: test_tiers_def)
  have h2: "\<forall>x \<in> set test_tiers. \<forall>y \<in> set test_tiers. threshold x = threshold y \<longrightarrow> name x = name y"
    by (simp add: test_tiers_def)
  have v: "getPrivacyTier 25 test_tiers = \<lparr>tier = ''Tier B'', amount = 10, originalAmount = 25\<rparr>"
    by (simp add: getPrivacyTier_def js_sort_def tier_cmp_def test_tiers_def)
  from C2_permutation_independent[OF h1, of 25] h2
  have "getPrivacyTier 25 test_tiers = getPrivacyTier 25 ?rev" by blast
  with h1 d v show ?thesis by blast
qed

text \<open>
  C2 as stated fails where two tiers share a threshold: the sort is stable, so the tier
  that comes first in the input wins, and swapping the two changes the tier name.
\<close>

theorem C2_shared_threshold_counterexample:
  "mset [\<lparr>name = ''A'', threshold = 10\<rparr>, \<lparr>name = ''B'', threshold = 10\<rparr>]
     = mset [\<lparr>name = ''B'', threshold = 10\<rparr>, \<lparr>name = ''A'', threshold = 10\<rparr>]
   \<and> getPrivacyTier 10 [\<lparr>name = ''A'', threshold = 10\<rparr>, \<lparr>name = ''B'', threshold = 10\<rparr>]
       = \<lparr>tier = ''A'', amount = 10, originalAmount = 10\<rparr>
   \<and> getPrivacyTier 10 [\<lparr>name = ''B'', threshold = 10\<rparr>, \<lparr>name = ''A'', threshold = 10\<rparr>]
       = \<lparr>tier = ''B'', amount = 10, originalAmount = 10\<rparr>
   \<and> getPrivacyTier 10 [\<lparr>name = ''A'', threshold = 10\<rparr>, \<lparr>name = ''B'', threshold = 10\<rparr>]
       \<noteq> getPrivacyTier 10 [\<lparr>name = ''B'', threshold = 10\<rparr>, \<lparr>name = ''A'', threshold = 10\<rparr>]"
  by (simp add: getPrivacyTier_def js_sort_def tier_cmp_def)

text \<open>
  C10. For every tier table whose thresholds are all non-negative and every amount,
  \<open>anonymizeAmount\<close> is idempotent: a bucketed amount re-bucketed under the same table
  yields itself.
\<close>

theorem C10_anonymize_idempotent:
  assumes "\<forall>t \<in> set tiers. 0 \<le> threshold t"
  shows "anonymizeAmount (anonymizeAmount amt tiers) tiers = anonymizeAmount amt tiers"
proof (cases "\<exists>t \<in> set tiers. threshold t \<le> amt")
  case True
  from getPrivacyTier_some[OF True] obtain t where t: "t \<in> set tiers"
    "getPrivacyTier amt tiers = \<lparr>tier = name t, amount = threshold t, originalAmount = amt\<rparr>"
    "threshold t \<le> amt" "\<forall>u \<in> set tiers. threshold u \<le> amt \<longrightarrow> threshold u \<le> threshold t"
    by blast
  have r: "anonymizeAmount amt tiers = threshold t"
    by (simp add: anonymizeAmount_def t(2))
  have "\<exists>u \<in> set tiers. threshold u \<le> threshold t" using t(1) by blast
  from getPrivacyTier_some[OF this] obtain t' where t': "t' \<in> set tiers"
    "getPrivacyTier (threshold t) tiers =
       \<lparr>tier = name t', amount = threshold t', originalAmount = threshold t\<rparr>"
    "threshold t' \<le> threshold t"
    "\<forall>u \<in> set tiers. threshold u \<le> threshold t \<longrightarrow> threshold u \<le> threshold t'"
    by blast
  have "threshold t \<le> threshold t'" using t'(4) t(1) by blast
  with t'(3) have "threshold t' = threshold t" by simp
  then show ?thesis unfolding r by (simp add: anonymizeAmount_def t'(2))
next
  case False
  then have r: "anonymizeAmount amt tiers = 0"
    by (simp add: anonymizeAmount_def getPrivacyTier_none)
  show ?thesis
  proof (cases "\<exists>u \<in> set tiers. threshold u \<le> 0")
    case True
    from getPrivacyTier_some[OF this] obtain t' where t': "t' \<in> set tiers"
      "getPrivacyTier 0 tiers = \<lparr>tier = name t', amount = threshold t', originalAmount = 0\<rparr>"
      "threshold t' \<le> 0"
      by blast
    have "0 \<le> threshold t'" using assms t'(1) by blast
    with t'(3) have "threshold t' = 0" by simp
    then show ?thesis unfolding r by (simp add: anonymizeAmount_def t'(2))
  next
    case False
    then show ?thesis unfolding r by (simp add: anonymizeAmount_def getPrivacyTier_none)
  qed
qed

theorem C10_anonymize_idempotent_witness:
  "list_all (\<lambda>t. 0 \<le> threshold t) test_tiers
   \<and> anonymizeAmount 150 test_tiers = 100
   \<and> anonymizeAmount (anonymizeAmount 150 test_tiers) test_tiers = anonymizeAmount 150 test_tiers"
proof -
  have h: "\<forall>t \<in> set test_tiers. 0 \<le> threshold t"
    by (simp add: test_tiers_def)
  have l: "list_all (\<lambda>t. 0 \<le> threshold t) test_tiers"
    by (simp add: test_tiers_def)
  have v: "anonymizeAmount 150 test_tiers = 100"
    by (simp add: anonymizeAmount_def getPrivacyTier_def js_sort_def tier_cmp_def test_tiers_def)
  from l v C10_anonymize_idempotent[OF h, of 150] show ?thesis by blast
qed


section \<open>Lemmas about the verifier\<close>

lemma length_test_wallet: "length test_wallet = 41"
  by (simp add: test_wallet_def)

lemma structurally_valid_test: "structurally_valid (clock_at t) (test_deposit t)"
  by (simp add: structurally_valid_def clock_at_def test_deposit_def length_test_wallet)

lemma ledger_of_cleanup:
  "ledger_of (cleanupOldEntries now m) w =
     filter (\<lambda>ts. now - ts < RATE_LIMIT_WINDOW_MS) (ledger_of m w)"
  by (simp add: ledger_of_def cleanupOldEntries_def Let_def split: option.splits)


lemma verifyDeposit_structurally_valid:
  assumes "structurally_valid clk d"
  shows "verifyDeposit clk m d =
     (let m1 = cleanupOldEntries (now_cleanup clk) m;
          entry = (case m1 (wallet d) of
                     Some e \<Rightarrow> e
                   | None \<Rightarrow> \<lparr>entry_wallet = wallet d, timestamps = []\<rparr>)
      in if length (timestamps entry) \<ge> MAX_EVENTS_PER_WINDOW
         then (rejected ''Rate limit exceeded'', m1)
         else (accepted, m1(wallet d \<mapsto> entry\<lparr>timestamps := timestamps entry @ [now_push clk]\<rparr>)))"
proof -
  from assms have "\<not> dep_amount d \<le> 0" "\<not> timestamp d < now_age clk - (24 * 60 * 60 * 1000)"
    "\<not> timestamp d > now_future clk + 60000" "\<not> (wallet d = [] \<or> length (wallet d) < 20)"
    by (auto simp: structurally_valid_def)
  then show ?thesis
    unfolding verifyDeposit_def Let_def by (simp only: if_False)
qed

lemma verifyDeposit_result:
  assumes "structurally_valid clk d"
  shows "fst (verifyDeposit clk m d) =
     (if MAX_EVENTS_PER_WINDOW \<le>
           length (filter (\<lambda>ts. now_cleanup clk - ts < RATE_LIMIT_WINDOW_MS) (ledger_of m (wallet d)))
      then rejected ''Rate limit exceeded'' else accepted)"
proof -
  have "ledger_of (cleanupOldEntries (now_cleanup clk) m) (wallet d) =
      filter (\<lambda>ts. now_cleanup clk - ts < RATE_LIMIT_WINDOW_MS) (ledger_of m (wallet d))"
    by (rule ledger_of_cleanup)
  then show ?thesis
    unfolding verifyDeposit_structurally_valid[OF assms]
    by (auto simp: Let_def ledger_of_def split: option.splits)
qed

lemma verifyDeposit_ledger_same:
  assumes "structurally_valid clk d"
  shows "ledger_of (snd (verifyDeposit clk m d)) (wallet d) =
     (let T = filter (\<lambda>ts. now_cleanup clk - ts < RATE_LIMIT_WINDOW_MS) (ledger_of m (wallet d))
      in if MAX_EVENTS_PER_WINDOW \<le> length T then T else T @ [now_push clk])"
proof -
  have "ledger_of (cleanupOldEntries (now_cleanup clk) m) (wallet d) =
      filter (\<lambda>ts. now_cleanup clk - ts < RATE_LIMIT_WINDOW_MS) (ledger_of m (wallet d))"
    by (rule ledger_of_cleanup)
  then show ?thesis
    unfolding verifyDeposit_structurally_valid[OF assms]
    by (auto simp: Let_def ledger_of_def split: option.splits)
qed


lemma verify_all_append:
  "verify_all (xs @ ys) m =
     (fst (verify_all xs m) @ fst (verify_all ys (snd (verify_all xs m))),
      snd (verify_all ys (snd (verify_all xs m))))"
  by (induction xs arbitrary: m) (auto simp: split_beta Let_def)

text \<open>
  Calls for one wallet whose clock readings all lie in one window \<open>[t0, t0 + window)\<close>:
  while the ceiling is not reached, each is accepted and its timestamp is recorded.
\<close>

lemma verify_all_within_window:
  assumes "\<forall>(clk, d) \<in> set calls. wallet d = w \<and> structurally_valid clk d
             \<and> t0 \<le> now_push clk \<and> now_cleanup clk < t0 + RATE_LIMIT_WINDOW_MS"
    and "\<forall>ts \<in> set (ledger_of m w). t0 \<le> ts"
    and "length (ledger_of m w) + length calls \<le> MAX_EVENTS_PER_WINDOW"
  shows "fst (verify_all calls m) = replicate (length calls) accepted
    \<and> ledger_of (snd (verify_all calls m)) w = ledger_of m w @ map (\<lambda>c. now_push (fst c)) calls"
  using assms
proof (induction calls arbitrary: m)
  case Nil
  then show ?case by simp
next
  case (Cons c calls)
  obtain clk d where c: "c = (clk, d)" by (cases c)
  from Cons.prems(1) c have d: "wallet d = w" "structurally_valid clk d"
    "t0 \<le> now_push clk" "now_cleanup clk < t0 + RATE_LIMIT_WINDOW_MS"
    by auto
  have keep: "filter (\<lambda>ts. now_cleanup clk - ts < RATE_LIMIT_WINDOW_MS) (ledger_of m w) = ledger_of m w"
  proof (rule filter_True, rule ballI)
    fix ts assume "ts \<in> set (ledger_of m w)"
    with Cons.prems(2) have "t0 \<le> ts" by blast
    with d(4) show "now_cleanup clk - ts < RATE_LIMIT_WINDOW_MS" by linarith
  qed
  from Cons.prems(3) have room: "\<not> MAX_EVENTS_PER_WINDOW \<le> length (ledger_of m w)" by simp
  let ?m1 = "snd (verifyDeposit clk m d)"
  have r: "fst (verifyDeposit clk m d) = accepted"
    using verifyDeposit_result[OF d(2), of m] keep room by (simp add: d(1))
  have l: "ledger_of ?m1 w = ledger_of m w @ [now_push clk]"
    using verifyDeposit_ledger_same[OF d(2), of m] keep room by (simp add: d(1) Let_def)
  have "fst (verify_all calls ?m1) = replicate (length calls) accepted
    \<and> ledger_of (snd (verify_all calls ?m1)) w = ledger_of ?m1 w @ map (\<lambda>c. now_push (fst c)) calls"
  proof (rule Cons.IH)
    show "\<forall>(clk, d) \<in> set calls. wallet d = w \<and> structurally_valid clk d
             \<and> t0 \<le> now_push clk \<and> now_cleanup clk < t0 + RATE_LIMIT_WINDOW_MS"
      using Cons.prems(1) by simp
    show "\<forall>ts \<in> set (ledger_of ?m1 w). t0 \<le> ts"
      using Cons.prems(2) d(3) by (simp add: l)
    show "length (ledger_of ?m1 w) + length calls \<le> MAX_EVENTS_PER_WINDOW"
      using Cons.prems(3) by (simp add: l)
  qed
  then show ?case
    using r l by (simp add: c split_beta Let_def)
qed

section \<open>Properties of the verifier\<close>

text \<open>
  C6. \<open>verifyDeposit\<close> applies its five checks in order and stops at the first that
  fails: an amount that is not positive is rejected with "Amount must be greater than 0";
  then an observed-at time more than 24 hours before the clock with "Deposit timestamp too
  old"; then one more than 60 seconds after the clock with "Deposit timestamp in future";
  then a wallet shorter than 20 characters with "Invalid wallet address"; each of these
  leaves the ledger as it was. A deposit that passes the four is rate-checked: rejected
  with "Rate limit exceeded" when the pruned ledger of its wallet holds the ceiling of
  timestamps, accepted otherwise.
\<close>

theorem C6_checks_in_order:
  "(dep_amount d \<le> 0 \<longrightarrow>
      verifyDeposit clk m d = (\<lparr>valid = False, reason = Some ''Amount must be greater than 0''\<rparr>, m))
   \<and> (0 < dep_amount d \<and> timestamp d < now_age clk - 24 * 60 * 60 * 1000 \<longrightarrow>
      verifyDeposit clk m d = (\<lparr>valid = False, reason = Some ''Deposit timestamp too old''\<rparr>, m))
   \<and> (0 < dep_amount d \<and> now_age clk - 24 * 60 * 60 * 1000 \<le> timestamp d
        \<and> now_future clk + 60000 < timestamp d \<longrightarrow>
      verifyDeposit clk m d = (\<lparr>valid = False, reason = Some ''Deposit timestamp in future''\<rparr>, m))
   \<and> (0 < dep_amount d \<and> now_age clk - 24 * 60 * 60 * 1000 \<le> timestamp d
        \<and> timestamp d \<le> now_future clk + 60000 \<and> length (wallet d) < 20 \<longrightarrow>
      verifyDeposit clk m d = (\<lparr>valid = False, reason = Some ''Invalid wallet address''\<rparr>, m))
   \<and> (0 < dep_amount d \<and> now_age clk - 24 * 60 * 60 * 1000 \<le> timestamp d
        \<and> timestamp d \<le> now_future clk + 60000 \<and> 20 \<le> length (wallet d) \<longrightarrow>
      fst (verifyDeposit clk m d) =
        (if MAX_EVENTS_PER_WINDOW \<le>
              length (filter (\<lambda>ts. now_cleanup clk - ts < RATE_LIMIT_WINDOW_MS) (ledger_of m (wallet d)))
         then \<lparr>valid = False, reason = Some ''Rate limit exceeded''\<rparr>
         else \<lparr>valid = True, reason = None\<rparr>))"
proof (intro conjI impI)
  assume "dep_amount d \<le> 0"
  then show "verifyDeposit clk m d =
      (\<lparr>valid = False, reason = Some ''Amount must be greater than 0''\<rparr>, m)"
    by (simp add: verifyDeposit_def rejected_def)
next
  assume "0 < dep_amount d \<and> timestamp d < now_age clk - 24 * 60 * 60 * 1000"
  then show "verifyDeposit clk m d =
      (\<lparr>valid = False, reason = Some ''Deposit timestamp too old''\<rparr>, m)"
    by (simp add: verifyDeposit_def rejected_def)
next
  assume "0 < dep_amount d \<and> now_age clk - 24 * 60 * 60 * 1000 \<le> timestamp d
        \<and> now_future clk + 60000 < timestamp d"
  then show "verifyDeposit clk m d =
      (\<lparr>valid = False, reason = Some ''Deposit timestamp in future''\<rparr>, m)"
    by (simp add: verifyDeposit_def rejected_def)
next
  assume "0 < dep_amount d \<and> now_age clk - 24 * 60 * 60 * 1000 \<le> timestamp d
        \<and> timestamp d \<le> now_future clk + 60000 \<and> length (wallet d) < 20"
  then show "verifyDeposit clk m d =
      (\<lparr>valid = False, reason = Some ''Invalid wallet address''\<rparr>, m)"
    by (auto simp: verifyDeposit_def rejected_def)
next
  assume "0 < dep_amount d \<and> now_age clk - 24 * 60 * 60 * 1000 \<le> timestamp d
        \<and> timestamp d \<le> now_future clk + 60000 \<and> 20 \<le> length (wallet d)"
  then have "structurally_valid clk d" by (simp add: structurally_valid_def)
  from verifyDeposit_result[OF this] show "fst (verifyDeposit clk m d) =
        (if MAX_EVENTS_PER_WINDOW \<le>
              length (filter (\<lambda>ts. now_cleanup clk - ts < RATE_LIMIT_WINDOW_MS) (ledger_of m (wallet d)))
         then \<lparr>valid = False, reason = Some ''Rate limit exceeded''\<rparr>
         else \<lparr>valid = True, reason = None\<rparr>)"
    by (simp add: rejected_def accepted_def)
qed

theorem C6_checks_in_order_witness:
  "verifyDeposit (clock_at 100000000) Map.empty ((test_deposit 100000000)\<lparr>dep_amount := 0\<rparr>) =
      (\<lparr>valid = False, reason = Some ''Amount must be greater than 0''\<rparr>, Map.empty)
   \<and> verifyDeposit (clock_at 100000000) Map.empty (test_deposit 10000000) =
      (\<lparr>valid = False, reason = Some ''Deposit timestamp too old''\<rparr>, Map.empty)
   \<and> verifyDeposit (clock_at 100000000) Map.empty (test_deposit 100061000) =
      (\<lparr>valid = False, reason = Some ''Deposit timestamp in future''\<rparr>, Map.empty)
   \<and> verifyDeposit (clock_at 100000000) Map.empty ((test_deposit 100000000)\<lparr>wallet := ''0x123''\<rparr>) =
      (\<lparr>valid = False, reason = Some ''Invalid wallet address''\<rparr>, Map.empty)
   \<and> fst (verifyDeposit (clock_at 100000000) (full_ledger 100000000) (test_deposit 100000000)) =
      \<lparr>valid = False, reason = Some ''Rate limit exceeded''\<rparr>
   \<and> fst (verifyDeposit (clock_at 100000000) Map.empty (test_deposit 100000000)) =
      \<lparr>valid = True, reason = None\<rparr>"
proof (intro conjI)
  show "verifyDeposit (clock_at 100000000) Map.empty ((test_deposit 100000000)\<lparr>dep_amount := 0\<rparr>) =
      (\<lparr>valid = False, reason = Some ''Amount must be greater than 0''\<rparr>, Map.empty)"
    using C6_checks_in_order[of "(test_deposit 100000000)\<lparr>dep_amount := 0\<rparr>"
        "clock_at 100000000" Map.empty]
    by (simp add: test_deposit_def)
  show "verifyDeposit (clock_at 100000000) Map.empty (test_deposit 10000000) =
      (\<lparr>valid = False, reason = Some ''Deposit timestamp too old''\<rparr>, Map.empty)"
    using C6_checks_in_order[of "test_deposit 10000000" "clock_at 100000000" Map.empty]
    by (simp add: test_deposit_def clock_at_def)
  show "verifyDeposit (clock_at 100000000) Map.empty (test_deposit 100061000) =
      (\<lparr>valid = False, reason = Some ''Deposit timestamp in future''\<rparr>, Map.empty)"
    using C6_checks_in_order[of "test_deposit 100061000" "clock_at 100000000" Map.empty]
    by (simp add: test_deposit_def clock_at_def)
  show "verifyDeposit (clock_at 100000000) Map.empty ((test_deposit 100000000)\<lparr>wallet := ''0x123''\<rparr>) =
      (\<lparr>valid = False, reason = Some ''Invalid wallet address''\<rparr>, Map.empty)"
    using C6_checks_in_order[of "(test_deposit 100000000)\<lparr>wallet := ''0x123''\<rparr>"
        "clock_at 100000000" Map.empty]
    by (simp add: test_deposit_def clock_at_def)
  show "fst (verifyDeposit (clock_at 100000000) (full_ledger 100000000) (test_deposit 100000000)) =
      \<lparr>valid = False, reason = Some ''Rate limit exceeded''\<rparr>"
    using C6_checks_in_order[of "test_deposit 100000000" "clock_at 100000000" "full_ledger 100000000"]
    by (simp add: test_deposit_def clock_at_def length_test_wallet full_ledger_def ledger_of_def
        RATE_LIMIT_WINDOW_MS_def MAX_EVENTS_PER_WINDOW_def)
  show "fst (verifyDeposit (clock_at 100000000) Map.empty (test_deposit 100000000)) =
      \<lparr>valid = True, reason = None\<rparr>"
    using C6_checks_in_order[of "test_deposit 100000000" "clock_at 100000000" Map.empty]
    by (simp add: test_deposit_def clock_at_def length_test_wallet ledger_of_def
        MAX_EVENTS_PER_WINDOW_def)
qed

text \<open>
  C7. For one wallet with no timestamps in the ledger and the ceiling of
  \<open>MAX_EVENTS_PER_WINDOW\<close> (10) events: that many otherwise-valid calls whose clock
  readings lie in one window are all accepted, the next otherwise-valid call in the same
  window is rejected with "Rate limit exceeded", and an otherwise-valid call made when
  the window has elapsed since the last recorded acceptance is accepted.
\<close>

theorem C7_rate_limit:
  assumes "ledger_of m0 w = []"
    and "length calls = MAX_EVENTS_PER_WINDOW"
    and "\<forall>(clk, d) \<in> set calls. wallet d = w \<and> structurally_valid clk d
           \<and> t0 \<le> now_push clk \<and> now_cleanup clk < t0 + RATE_LIMIT_WINDOW_MS"
    and "\<forall>(clk, d) \<in> set calls. now_push clk \<le> t1"
    and "wallet d' = w" and "structurally_valid clk' d'"
    and "now_cleanup clk' < t0 + RATE_LIMIT_WINDOW_MS"
    and "wallet d'' = w" and "structurally_valid clk'' d''"
    and "t1 + RATE_LIMIT_WINDOW_MS \<le> now_cleanup clk''"
  shows "fst (verify_all (calls @ [(clk', d'), (clk'', d'')]) m0) =
     replicate MAX_EVENTS_PER_WINDOW accepted @ [rejected ''Rate limit exceeded'', accepted]"
proof -
  let ?T = "map (\<lambda>c. now_push (fst c)) calls"
  let ?m1 = "snd (verify_all calls m0)"
  have first: "fst (verify_all calls m0) = replicate (length calls) accepted
    \<and> ledger_of ?m1 w = ledger_of m0 w @ ?T"
    using assms(3) by (rule verify_all_within_window) (simp_all add: assms(1,2))
  then have l1: "ledger_of ?m1 w = ?T" by (simp add: assms(1))
  have lo: "\<forall>ts \<in> set ?T. t0 \<le> ts" using assms(3) by auto
  have hi: "\<forall>ts \<in> set ?T. ts \<le> t1" using assms(4) by auto
  have keep: "filter (\<lambda>ts. now_cleanup clk' - ts < RATE_LIMIT_WINDOW_MS) ?T = ?T"
  proof (rule filter_True, rule ballI)
    fix ts assume "ts \<in> set ?T"
    with lo have "t0 \<le> ts" by blast
    with assms(7) show "now_cleanup clk' - ts < RATE_LIMIT_WINDOW_MS" by linarith
  qed
  let ?m2 = "snd (verifyDeposit clk' ?m1 d')"
  have r2: "fst (verifyDeposit clk' ?m1 d') = rejected ''Rate limit exceeded''"
    using verifyDeposit_result[OF assms(6), of ?m1] keep
    by (simp add: assms(5) l1 assms(2))
  have l2: "ledger_of ?m2 w = ?T"
    using verifyDeposit_ledger_same[OF assms(6), of ?m1] keep
    by (simp add: assms(5) l1 assms(2) Let_def)
  have drop: "filter (\<lambda>ts. now_cleanup clk'' - ts < RATE_LIMIT_WINDOW_MS) ?T = []"
  proof (rule filter_False, rule ballI)
    fix ts assume "ts \<in> set ?T"
    with hi have "ts \<le> t1" by blast
    with assms(10) show "\<not> now_cleanup clk'' - ts < RATE_LIMIT_WINDOW_MS" by linarith
  qed
  have r3: "fst (verifyDeposit clk'' ?m2 d'') = accepted"
    using verifyDeposit_result[OF assms(9), of ?m2] drop
    by (simp add: assms(8) l2 MAX_EVENTS_PER_WINDOW_def)
  have "fst (verify_all [(clk', d'), (clk'', d'')] ?m1) = [rejected ''Rate limit exceeded'', accepted]"
    using r2 r3 by (simp add: split_beta Let_def)
  with first show ?thesis
    by (simp add: verify_all_append assms(2))
qed

theorem C7_rate_limit_witness:
  "fst (verify_all
          (replicate 10 (clock_at 1000, test_deposit 1000)
             @ [(clock_at 2000, test_deposit 2000), (clock_at 70000, test_deposit 70000)])
          Map.empty) =
     replicate 10 accepted @ [rejected ''Rate limit exceeded'', accepted]"
proof -
  have h1: "ledger_of Map.empty test_wallet = []"
    by (simp add: ledger_of_def)
  have h2: "length (replicate 10 (clock_at 1000, test_deposit 1000)) = MAX_EVENTS_PER_WINDOW"
    by (simp add: MAX_EVENTS_PER_WINDOW_def)
  have h3: "\<forall>(clk, d) \<in> set (replicate 10 (clock_at 1000, test_deposit 1000)).
      wallet d = test_wallet \<and> structurally_valid clk d
      \<and> 1000 \<le> now_push clk \<and> now_cleanup clk < 1000 + RATE_LIMIT_WINDOW_MS"
    using structurally_valid_test[of 1000]
    by (simp add: test_deposit_def clock_at_def RATE_LIMIT_WINDOW_MS_def)
  have h4: "\<forall>(clk, d) \<in> set (replicate 10 (clock_at 1000, test_deposit 1000)). now_push clk \<le> 1000"
    by (simp add: clock_at_def)
  have h5: "wallet (test_deposit 2000) = test_wallet" "wallet (test_deposit 70000) = test_wallet"
    by (simp_all add: test_deposit_def)
  have h6: "now_cleanup (clock_at 2000) < 1000 + RATE_LIMIT_WINDOW_MS"
    by (simp add: clock_at_def RATE_LIMIT_WINDOW_MS_def)
  have h7: "1000 + RATE_LIMIT_WINDOW_MS \<le> now_cleanup (clock_at 70000)"
    by (simp add: clock_at_def RATE_LIMIT_WINDOW_MS_def)
  from C7_rate_limit[OF h1 h2 h3 h4 h5(1) structurally_valid_test h6 h5(2) structurally_valid_test h7]
  show ?thesis by (simp add: MAX_EVENTS_PER_WINDOW_def)
qed





section \<open>Lemmas about the minter\<close>


text \<open>
  The guard of \<open>mintAttestation\<close> reads the flag of the deposit it is given, and the
  function sets the flag of the stored row only: outside ethereum mode, a call with a
  deposit value whose flag is unset succeeds whenever the identifier drawn for the
  attestation is new and the deposit is stored, whatever the flag of the stored row.
  Callers that mint again must pass the deposit as stored.
\<close>

lemma mintAttestation_guard_reads_argument:
  assumes "\<not> processed deposit"
    and "mode (config svc) \<noteq> ''ethereum''"
    and "\<not> list_ex (\<lambda>r. att_id r = uuid env) (attestations (db app))"
    and "list_ex (\<lambda>r. dep_id r = dep_id deposit) (deposits (db app))"
  shows "success (fst (mintAttestation svc env app deposit tierName metadataUri))"
  using assms
  by (simp add: mintAttestation_def Let_def insert_attestation_def split_beta)

section \<open>Lemmas about the event pipeline\<close>

text \<open>
  The handler stores the deposit before it looks for duplicates, and the query by
  transaction reference returns the row just stored: whenever the insertion succeeds and
  the verifier accepts, the handler reports a duplicate.
\<close>

lemma checkDuplicate_after_insert:
  assumes "insert_deposit current d dbase = Inr db1"
  shows "checkDuplicate d (select_deposits_by_txid (txid d) db1)"
proof -
  from assms have "db1 = dbase\<lparr>deposits := deposits dbase @ [d\<lparr>created_at := current\<rparr>]\<rparr>"
    by (simp add: insert_deposit_def split: if_splits)
  then have "d\<lparr>created_at := current\<rparr> \<in> set (select_deposits_by_txid (txid d) db1)"
    by (simp add: select_deposits_by_txid_def)
  then show ?thesis
    unfolding checkDuplicate_def list_ex_iff by (rule bexI[rotated]) simp
qed

lemma onDeposit_accepted_is_duplicate:
  assumes "insert_deposit (db_now env)
             \<lparr>dep_id = ev_id deposit, txid = ev_txid deposit, wallet = ev_wallet deposit,
              dep_amount = ev_amount deposit, token = ev_token deposit,
              timestamp = ev_timestamp deposit, processed = False,
              created_at = iso_now env\<rparr> (db app) = Inr db1"
    and "valid (fst (verifyDeposit (clock env) (rateLimitMap app)
             \<lparr>dep_id = ev_id deposit, txid = ev_txid deposit, wallet = ev_wallet deposit,
              dep_amount = ev_amount deposit, token = ev_token deposit,
              timestamp = ev_timestamp deposit, processed = False,
              created_at = iso_now env\<rparr>))"
  shows "emitted (onDeposit minter env app deposit) =
     emitted app @ [DepositNew deposit,
                    DepositVerified (ev_id deposit) False (Some ''Duplicate deposit'')]"
proof -
  let ?d = "\<lparr>dep_id = ev_id deposit, txid = ev_txid deposit, wallet = ev_wallet deposit,
              dep_amount = ev_amount deposit, token = ev_token deposit,
              timestamp = ev_timestamp deposit, processed = False,
              created_at = iso_now env\<rparr>"
  have "checkDuplicate ?d (select_deposits_by_txid (txid ?d) db1)"
    using assms(1) by (rule checkDuplicate_after_insert)
  then have dup: "checkDuplicate ?d (select_deposits_by_txid (ev_txid deposit) db1)"
    by simp
  show ?thesis
    unfolding onDeposit_def Let_def using assms dup
    by (simp add: split_beta)
qed

section \<open>Properties of the minter\<close>

text \<open>
  C3. For every deposit whose processed flag is true, \<open>mintAttestation\<close> returns the
  failure "Deposit already processed" and leaves the state as it was: no minting function
  is called, and the deposits and attestations stored are unchanged.
\<close>

theorem C3_processed_deposit_rejected:
  assumes "processed deposit"
  shows "fst (mintAttestation svc env app deposit tierName metadataUri) =
       \<lparr>success = False, attestationId = None, tokenId = None,
        error = Some ''Deposit already processed''\<rparr>
    \<and> snd (mintAttestation svc env app deposit tierName metadataUri) = app
    \<and> mint_calls (snd (mintAttestation svc env app deposit tierName metadataUri)) = mint_calls app
    \<and> db (snd (mintAttestation svc env app deposit tierName metadataUri)) = db app"
  using assms by (simp add: mintAttestation_def)

theorem C3_processed_deposit_rejected_witness:
  "processed ((test_deposit 0)\<lparr>processed := True\<rparr>)
   \<and> fst (mintAttestation mock_service test_mint_env stored_app
            ((test_deposit 0)\<lparr>processed := True\<rparr>) ''Tier B'' None) =
       \<lparr>success = False, attestationId = None, tokenId = None,
        error = Some ''Deposit already processed''\<rparr>
   \<and> snd (mintAttestation mock_service test_mint_env stored_app
            ((test_deposit 0)\<lparr>processed := True\<rparr>) ''Tier B'' None) = stored_app"
proof -
  have h: "processed ((test_deposit 0)\<lparr>processed := True\<rparr>)" by simp
  from C3_processed_deposit_rejected[OF h, of mock_service test_mint_env stored_app "''Tier B''" None] h
  show ?thesis by blast
qed

text \<open>
  C4. For every unprocessed deposit, if the minting function fails, \<open>mintAttestation\<close>
  returns a failure that carries the message of the error thrown ("Unknown error" when
  the thrown value is not an \<open>Error\<close>); no attestation is stored and the stored deposits
  are as before: apart from the record of the call, the state is unchanged. Only
  \<open>mintOnEthereum\<close> can fail; the two mock minting functions always return.
\<close>

theorem C4_mint_failure_changes_nothing:
  assumes "\<not> processed deposit"
    and "mode (config svc) = ''ethereum''"
    and "mintOnEthereum svc env (wallet deposit) tierName metadataUri = Inl e"
  shows "fst (mintAttestation svc env app deposit tierName metadataUri) =
       \<lparr>success = False, attestationId = None, tokenId = None,
        error = Some (case e of ErrorObj msg \<Rightarrow> msg | NonError \<Rightarrow> ''Unknown error'')\<rparr>
    \<and> snd (mintAttestation svc env app deposit tierName metadataUri) =
       app\<lparr>mint_calls := mint_calls app @ [MintOnEthereum (wallet deposit) tierName metadataUri]\<rparr>
    \<and> db (snd (mintAttestation svc env app deposit tierName metadataUri)) = db app"
  using assms by (simp add: mintAttestation_def caught_def)

theorem C4_mint_failure_changes_nothing_witness:
  "fst (mintAttestation failing_service test_mint_env stored_app (test_deposit 0) ''Tier B'' None) =
       \<lparr>success = False, attestationId = None, tokenId = None, error = Some ''network error''\<rparr>
   \<and> db (snd (mintAttestation failing_service test_mint_env stored_app (test_deposit 0) ''Tier B'' None))
       = db stored_app
   \<and> attestations (db stored_app) = []
   \<and> map processed (deposits (db stored_app)) = [False]"
proof -
  have h1: "\<not> processed (test_deposit 0)" by (simp add: test_deposit_def)
  have h2: "mode (config failing_service) = ''ethereum''" by (simp add: failing_service_def)
  have h3: "mintOnEthereum failing_service test_mint_env (wallet (test_deposit 0)) ''Tier B'' None
      = Inl (ErrorObj ''network error'')"
    by (simp add: mintOnEthereum_def failing_service_def)
  have s: "attestations (db stored_app) = []" "map processed (deposits (db stored_app)) = [False]"
    by (simp_all add: stored_app_def test_deposit_def)
  from C4_mint_failure_changes_nothing[OF h1 h2 h3, of stored_app] s
  show ?thesis by simp
qed




section \<open>Properties of the event pipeline\<close>

text \<open>
  C1. A deposit event that passes the verifier and whose identifier and transaction
  reference occur in no deposit stored before should be broadcast as verified. The
  handler does otherwise: on an empty database and an empty ledger, the valid deposit of
  the tests is stored, announced, accepted by the verifier, and then reported as
  "Duplicate deposit"; nothing is minted.
\<close>

theorem C1_fresh_deposit_reported_duplicate:
  "deposits (db empty_app) = []
   \<and> valid (fst (verifyDeposit (clock test_handler_env) (rateLimitMap empty_app) (test_deposit 1000)))
   \<and> emitted (onDeposit mock_service test_handler_env empty_app test_event) =
       [DepositNew test_event, DepositVerified ''test-1'' False (Some ''Duplicate deposit'')]
   \<and> mint_calls (onDeposit mock_service test_handler_env empty_app test_event) = []"
proof -
  have d: "\<lparr>dep_id = ev_id test_event, txid = ev_txid test_event, wallet = ev_wallet test_event,
            dep_amount = ev_amount test_event, token = ev_token test_event,
            timestamp = ev_timestamp test_event, processed = False,
            created_at = iso_now test_handler_env\<rparr> = test_deposit 1000"
    by (simp add: test_event_def test_deposit_def test_handler_env_def)
  have c: "clock test_handler_env = clock_at 1000"
    by (simp add: test_handler_env_def)
  have e: "deposits (db empty_app) = []" "rateLimitMap empty_app = Map.empty"
    "emitted empty_app = []" "mint_calls empty_app = []"
    by (simp_all add: empty_app_def)
  have v: "valid (fst (verifyDeposit (clock test_handler_env) (rateLimitMap empty_app)
      (test_deposit 1000)))"
    unfolding c e verifyDeposit_result[OF structurally_valid_test]
    by (simp add: ledger_of_def MAX_EVENTS_PER_WINDOW_def accepted_def)
  have i: "insert_deposit (db_now test_handler_env) (test_deposit 1000) (db empty_app) =
      Inr ((db empty_app)\<lparr>deposits := [(test_deposit 1000)\<lparr>created_at := db_now test_handler_env\<rparr>]\<rparr>)"
    by (simp add: insert_deposit_def e)
  have em: "emitted (onDeposit mock_service test_handler_env empty_app test_event) =
       [DepositNew test_event, DepositVerified ''test-1'' False (Some ''Duplicate deposit'')]"
    using onDeposit_accepted_is_duplicate[of test_handler_env test_event empty_app _ mock_service]
      i v
    by (simp add: d e) (simp add: test_event_def)
  have dup: "checkDuplicate (test_deposit 1000)
      (select_deposits_by_txid (ev_txid test_event)
         ((db empty_app)\<lparr>deposits := [(test_deposit 1000)\<lparr>created_at := db_now test_handler_env\<rparr>]\<rparr>))"
    by (simp add: checkDuplicate_def select_deposits_by_txid_def test_deposit_def test_event_def)
  have mc: "mint_calls (onDeposit mock_service test_handler_env empty_app test_event) = []"
    unfolding onDeposit_def Let_def d using i v dup
    by (simp add: split_beta e)
  from e(1) v em mc show ?thesis by blast
qed

end
